theory Spec2Isabelle
  imports Main
begin

section \<open>The registration stub of \<open>src/init.cpp\<close>\<close>

text \<open>
  The translation unit declares one static table of \<open>.Call\<close> routine descriptors and one
  function with C linkage, the load hook:
  \<^verbatim>\<open>
  static const R_CallMethodDef CallEntries[] = {
    {NULL, NULL, 0}
  };

  void R_init_toth(DllInfo *dll) {
    R_registerRoutines(dll, NULL, CallEntries, NULL, NULL);
    R_useDynamicSymbols(dll, FALSE);
  }
  \<close>
  The two functions the hook calls belong to the host interpreter. The hook is therefore
  embedded over an arbitrary host: a record of the two entry points, each a function on
  the host's state that either returns a value and the new state, or raises (the host's
  error is a non-local exit through the hook, so nothing after the call runs).
\<close>

subsection \<open>Data\<close>

text \<open>
  A pointer is an address; a pointer that may be \<open>NULL\<close> is an \<open>option\<close>. The library
  handle \<open>DllInfo *\<close> is opaque to the hook, which only passes it on.
\<close>

type_synonym DllInfo_ptr = nat

type_synonym DL_FUNC = nat

text \<open>
  The descriptor types of the host's header: a \<open>.Call\<close> descriptor is
  \<open>{name, fun, numArgs}\<close>; a \<open>.C\<close> descriptor has the same three fields and a fourth,
  \<open>types\<close>. \<open>.Fortran\<close> tables use the \<open>.C\<close> descriptor and \<open>.External\<close> tables the
  \<open>.Call\<close> descriptor. (\<open>fun\<close> is written \<open>func\<close>.)
\<close>

record R_CallMethodDef =
  name :: "string option"
  func :: "DL_FUNC option"
  numArgs :: int

record R_CMethodDef = R_CallMethodDef +
  types :: "nat option"

type_synonym R_FortranMethodDef = R_CMethodDef

type_synonym R_ExternalMethodDef = R_CallMethodDef

text \<open>The table of the source: its only element is \<open>{NULL, NULL, 0}\<close>.\<close>

definition CallEntries :: "R_CallMethodDef list" where
  "CallEntries = [\<lparr>name = None, func = None, numArgs = 0\<rparr>]"

text \<open>The all-null descriptor that ends a table.\<close>

definition sentinel :: R_CallMethodDef where
  "sentinel = \<lparr>name = None, func = None, numArgs = 0\<rparr>"

definition is_sentinel :: "R_CallMethodDef \<Rightarrow> bool" where
  "is_sentinel d = (name d = None \<and> func d = None \<and> numArgs d = 0)"

subsection \<open>The host's interface\<close>

text \<open>
  \<^verbatim>\<open>
  int R_registerRoutines(DllInfo *info, const R_CMethodDef * const croutines,
                         const R_CallMethodDef * const callRoutines,
                         const R_FortranMethodDef * const fortranRoutines,
                         const R_ExternalMethodDef * const externalRoutines);
  Rboolean R_useDynamicSymbols(DllInfo *info, Rboolean value);
  \<close>
  The tables are passed behind pointers to \<open>const\<close>: the host reads them and cannot write
  them, so the model passes their value. \<open>'h\<close> is the host's state and \<open>'e\<close> its errors.
\<close>

record ('h, 'e) host_api =
  R_registerRoutines ::
    "DllInfo_ptr \<Rightarrow> R_CMethodDef list option \<Rightarrow> R_CallMethodDef list option \<Rightarrow>
     R_FortranMethodDef list option \<Rightarrow> R_ExternalMethodDef list option \<Rightarrow>
     'h \<Rightarrow> 'e + int \<times> 'h"
  R_useDynamicSymbols :: "DllInfo_ptr \<Rightarrow> bool \<Rightarrow> 'h \<Rightarrow> 'e + bool \<times> 'h"

subsection \<open>The load hook\<close>

text \<open>
  The hook calls the registration function, drops the status it returns, calls the
  lookup-policy function with \<open>FALSE\<close>, drops the flag it returns, and returns nothing:
  its result is the host's state.
\<close>

definition R_init_toth :: "('h, 'e) host_api \<Rightarrow> DllInfo_ptr \<Rightarrow> 'h \<Rightarrow> 'e + 'h" where
  "R_init_toth host dll h =
     (case R_registerRoutines host dll None (Some CallEntries) None None h of
        Inl e \<Rightarrow> Inl e
      | Inr (status, h1) \<Rightarrow>
          (case R_useDynamicSymbols host dll False h1 of
             Inl e \<Rightarrow> Inl e
           | Inr (old, h2) \<Rightarrow> Inr h2))"

subsection \<open>Observing the calls\<close>







text \<open>
  A host for concrete runs: it serves every call, counts the calls it has served,
  reports status 1 for a registration and \<open>TRUE\<close> as the previous flag.
\<close>

definition counting_host :: "(nat, unit) host_api" where
  "counting_host =
     \<lparr>R_registerRoutines = (\<lambda>dll c k f x n. Inr (1, Suc n)),
      R_useDynamicSymbols = (\<lambda>dll b n. Inr (True, Suc n))\<rparr>"



subsection \<open>The host interpreter\<close>

text \<open>
  Modelled from the spec: the host interpreter's registration facility, its
  lookup-policy flag and its resolution of a routine name. They are the host's code
  (\<open>R_registerRoutines\<close>, \<open>R_useDynamicSymbols\<close> and the symbol lookup behind a call
  by name), which is not in \<open>src/\<close>. The spec: the table is "terminated by a sentinel
  (all-null) descriptor" which "the host uses to determine table length"; registration
  associates "every descriptor's name with its function pointer and arity", after which
  "the host interpreter's symbol table contains exactly the routines enumerated"; the
  second call sets "a boolean allow dynamic symbol lookup flag"; dynamic symbol lookup
  is "a host fallback mechanism that resolves callable names directly against the
  library's linker symbol table rather than via the explicit registration table"; a name
  that is not resolved is "not found"; a malformed table is rejected by the host.
\<close>

record library =
  registered :: "R_CallMethodDef list"
  allow_dynamic_lookup :: bool
  linker_symbols :: "(string \<times> DL_FUNC) list"

type_synonym interpreter = "DllInfo_ptr \<Rightarrow> library"

datatype host_error = MalformedTable

text \<open>
  Modelled from the spec: the descriptors of a table are those before the first
  sentinel; a table with no sentinel has no end the host could find.
\<close>

fun descriptors :: "R_CallMethodDef list \<Rightarrow> R_CallMethodDef list option" where
  "descriptors [] = None"
| "descriptors (d # ds) =
     (if is_sentinel d then Some [] else map_option ((#) d) (descriptors ds))"

text \<open>Modelled from the spec: a null table argument supplies no routine.\<close>

definition supplied :: "R_CallMethodDef list option \<Rightarrow> R_CallMethodDef list option" where
  "supplied t = (case t of None \<Rightarrow> Some [] | Some table \<Rightarrow> descriptors table)"

text \<open>
  Modelled from the spec: registration. The library's registered routines become
  exactly the routines the supplied tables enumerate; the status is 1.
\<close>

definition register_tables ::
  "DllInfo_ptr \<Rightarrow> R_CMethodDef list option \<Rightarrow> R_CallMethodDef list option \<Rightarrow>
   R_FortranMethodDef list option \<Rightarrow> R_ExternalMethodDef list option \<Rightarrow>
   interpreter \<Rightarrow> host_error + int \<times> interpreter" where
  "register_tables dll c k f x H =
     (case (supplied (map_option (map R_CallMethodDef.truncate) c), supplied k,
            supplied (map_option (map R_CallMethodDef.truncate) f), supplied x) of
        (Some cs, Some ks, Some fs, Some xs) \<Rightarrow>
          Inr (1, H(dll := (H dll)\<lparr>registered := cs @ ks @ fs @ xs\<rparr>))
      | _ \<Rightarrow> Inl MalformedTable)"

text \<open>
  Modelled from the spec: the lookup-policy call sets the library's flag; it returns the
  flag's previous value.
\<close>

definition set_dynamic_lookup ::
  "DllInfo_ptr \<Rightarrow> bool \<Rightarrow> interpreter \<Rightarrow> host_error + bool \<times> interpreter" where
  "set_dynamic_lookup dll v H =
     Inr (allow_dynamic_lookup (H dll), H(dll := (H dll)\<lparr>allow_dynamic_lookup := v\<rparr>))"

definition interpreter_host :: "(interpreter, host_error) host_api" where
  "interpreter_host =
     \<lparr>R_registerRoutines = register_tables, R_useDynamicSymbols = set_dynamic_lookup\<rparr>"

text \<open>
  Modelled from the spec: resolving a name in a library. The registration table is
  searched first; the dynamic path searches the linker symbol table and is taken only
  while the flag allows it. \<open>None\<close> is the "not found" outcome.
\<close>

definition lookup_registered :: "library \<Rightarrow> string \<Rightarrow> R_CallMethodDef option" where
  "lookup_registered lib n = find (\<lambda>d. name d = Some n) (registered lib)"

definition lookup_dynamic :: "library \<Rightarrow> string \<Rightarrow> DL_FUNC option" where
  "lookup_dynamic lib n =
     (if allow_dynamic_lookup lib then map_of (linker_symbols lib) n else None)"

definition resolve :: "library \<Rightarrow> string \<Rightarrow> DL_FUNC option" where
  "resolve lib n =
     (case lookup_registered lib n of
        Some d \<Rightarrow> func d
      | None \<Rightarrow> lookup_dynamic lib n)"

definition callable :: "library \<Rightarrow> string set" where
  "callable lib = {n. resolve lib n \<noteq> None}"

text \<open>
  A library as the host holds it before the hook has run: nothing registered, dynamic
  lookup allowed, and the hook's own symbol in the linker symbol table.
\<close>

definition loaded :: interpreter where
  "loaded = (\<lambda>dll. \<lparr>registered = [], allow_dynamic_lookup = True,
     linker_symbols = [(''R_init_toth'', 4096)]\<rparr>)"

section \<open>Properties\<close>

subsection \<open>Shared facts\<close>




text \<open>The hook on the host interpreter: it always returns, and changes one library.\<close>

lemma hook_on_interpreter:
  "R_init_toth interpreter_host dll H =
     Inr (H(dll := (H dll)\<lparr>registered := [], allow_dynamic_lookup := False\<rparr>))"
  by (simp add: R_init_toth_def interpreter_host_def register_tables_def
      set_dynamic_lookup_def supplied_def CallEntries_def is_sentinel_def)

lemma resolve_without_fallback:
  assumes "\<not> allow_dynamic_lookup lib" and "lookup_registered lib n = None"
  shows "resolve lib n = None"
  using assms by (simp add: resolve_def lookup_dynamic_def)

subsection \<open>The routine table\<close>

text \<open>
  C3. In the routine table \<open>CallEntries\<close> the last element is the all-null sentinel
  descriptor, and no all-null descriptor stands at a position before the last.
\<close>

theorem CallEntries_terminated:
  "CallEntries \<noteq> [] \<and> last CallEntries = sentinel \<and> is_sentinel (last CallEntries) \<and>
   \<not> (\<exists>i < length CallEntries - 1. is_sentinel (CallEntries ! i))"
  by (simp add: CallEntries_def sentinel_def is_sentinel_def)

subsection \<open>The calls the hook makes\<close>








subsection \<open>Errors and effects\<close>

text \<open>
  C7. The hook raises no error of its own, for any library handle and whatever the host
  answers about the table: a run of the hook ends in an error exactly when one of the
  host's two functions raised that error, and on a host whose two functions always
  return the hook returns.
\<close>

theorem R_init_toth_no_error_of_its_own:
  "(R_init_toth host dll h = Inl e \<longleftrightarrow>
      (R_registerRoutines host dll None (Some CallEntries) None None h = Inl e \<or>
       (\<exists>status h1.
          R_registerRoutines host dll None (Some CallEntries) None None h = Inr (status, h1) \<and>
          R_useDynamicSymbols host dll False h1 = Inl e))) \<and>
   ((\<forall>s. \<exists>r. R_registerRoutines host dll None (Some CallEntries) None None s = Inr r) \<and>
    (\<forall>s. \<exists>r. R_useDynamicSymbols host dll False s = Inr r) \<longrightarrow>
    (\<exists>h'. R_init_toth host dll h = Inr h'))"
proof (intro conjI impI)
  show "R_init_toth host dll h = Inl e \<longleftrightarrow>
      (R_registerRoutines host dll None (Some CallEntries) None None h = Inl e \<or>
       (\<exists>status h1.
          R_registerRoutines host dll None (Some CallEntries) None None h = Inr (status, h1) \<and>
          R_useDynamicSymbols host dll False h1 = Inl e))"
    by (auto simp: R_init_toth_def split: sum.splits prod.splits)
next
  assume ok: "(\<forall>s. \<exists>r. R_registerRoutines host dll None (Some CallEntries) None None s = Inr r) \<and>
    (\<forall>s. \<exists>r. R_useDynamicSymbols host dll False s = Inr r)"
  then obtain status h1
    where reg: "R_registerRoutines host dll None (Some CallEntries) None None h = Inr (status, h1)"
    by (metis surj_pair)
  from ok obtain old h2 where use: "R_useDynamicSymbols host dll False h1 = Inr (old, h2)"
    by (metis surj_pair)
  from reg use have "R_init_toth host dll h = Inr h2"
    by (simp add: R_init_toth_def)
  then show "\<exists>h'. R_init_toth host dll h = Inr h'" ..
qed

theorem R_init_toth_no_error_of_its_own_witness:
  "(\<forall>s. \<exists>r. R_registerRoutines counting_host 3 None (Some CallEntries) None None s = Inr r) \<and>
   (\<forall>s. \<exists>r. R_useDynamicSymbols counting_host 3 False s = Inr r) \<and>
   (\<exists>h'. R_init_toth counting_host 3 0 = Inr h')"
proof -
  have ok: "(\<forall>s. \<exists>r. R_registerRoutines counting_host 3 None (Some CallEntries) None None s = Inr r) \<and>
    (\<forall>s. \<exists>r. R_useDynamicSymbols counting_host 3 False s = Inr r)"
    by (auto simp: counting_host_def)
  with R_init_toth_no_error_of_its_own [of counting_host 3 0] show ?thesis by blast
qed




subsection \<open>The hook on the host interpreter\<close>

text \<open>
  C1. The routine table holds no routine descriptor (none of its elements is other than
  the sentinel, and the host finds none before the sentinel), so after the hook has
  run, in whatever state it found the host, the library has no registered routine and
  the set of routine names the host can resolve in it is empty.
\<close>

theorem no_callable_routines:
  "filter (\<lambda>d. \<not> is_sentinel d) CallEntries = [] \<and>
   descriptors CallEntries = Some [] \<and>
   (\<exists>H'. R_init_toth interpreter_host dll H = Inr H' \<and>
      registered (H' dll) = [] \<and> callable (H' dll) = {})"
proof -
  let ?H' = "H(dll := (H dll)\<lparr>registered := [], allow_dynamic_lookup := False\<rparr>)"
  have "filter (\<lambda>d. \<not> is_sentinel d) CallEntries = []"
    by (simp add: CallEntries_def is_sentinel_def)
  moreover have "descriptors CallEntries = Some []"
    by (simp add: CallEntries_def is_sentinel_def)
  moreover have "R_init_toth interpreter_host dll H = Inr ?H'"
    by (rule hook_on_interpreter)
  moreover have "registered (?H' dll) = []"
    by simp
  moreover have "callable (?H' dll) = {}"
    by (simp add: callable_def resolve_def lookup_registered_def lookup_dynamic_def)
  ultimately show ?thesis by blast
qed

text \<open>
  C5. After the hook has run, the library's "allow dynamic symbol lookup" flag is
  false, so a name that is not in the registered table is not found; the table being
  empty, no name at all is resolved, neither on the dynamic path nor otherwise, even a
  name the library's linker symbol table holds.
\<close>

theorem dynamic_lookup_disabled:
  "\<exists>H'. R_init_toth interpreter_host dll H = Inr H' \<and>
     allow_dynamic_lookup (H' dll) = False \<and>
     lookup_registered (H' dll) n = None \<and>
     lookup_dynamic (H' dll) n = None \<and>
     resolve (H' dll) n = None"
proof -
  let ?H' = "H(dll := (H dll)\<lparr>registered := [], allow_dynamic_lookup := False\<rparr>)"
  have flag: "\<not> allow_dynamic_lookup (?H' dll)"
    by simp
  have reg: "lookup_registered (?H' dll) n = None"
    by (simp add: lookup_registered_def)
  from flag reg have "resolve (?H' dll) n = None"
    by (rule resolve_without_fallback)
  moreover from flag have "lookup_dynamic (?H' dll) n = None"
    by (simp add: lookup_dynamic_def)
  ultimately show ?thesis
    using flag reg hook_on_interpreter [of dll H] by simp
qed

text \<open>
  On the freshly loaded library the hook's own symbol is resolved on the dynamic path
  before the hook has run, and not after.
\<close>

lemma loaded_then_hook:
  "resolve (loaded 1) ''R_init_toth'' = Some 4096 \<and>
   (\<exists>H'. R_init_toth interpreter_host 1 loaded = Inr H' \<and>
      resolve (H' 1) ''R_init_toth'' = None)"
  by (simp add: hook_on_interpreter loaded_def resolve_def lookup_registered_def
      lookup_dynamic_def)

end
